theory Spec2Isabelle
  imports
    Complex_Main
    "HOL-Library.AList"
    "HOL-Library.Char_ord"
    "HOL-Library.List_Lexorder"
    "HOL-Library.Word"
begin

section \<open>Python values used by the ingestion core\<close>

text \<open>
  The exceptions that the modelled code can meet. \<open>OSError\<close> stands for the whole
  \<open>OSError\<close> family (\<open>FileNotFoundError\<close>, \<open>PermissionError\<close>, ...), which is what
  \<open>except OSError\<close> catches; the other two are not caught by it.
\<close>

datatype exn = OSError | ValueError | OverflowError

text \<open>
  A Python \<open>str\<close> is modelled as a \<open>string\<close>, one \<open>char\<close> per code point (so the model
  covers texts whose code points are below 256); \<open>len\<close> is \<open>length\<close>.
\<close>

definition LF :: char where
  "LF = CHR 0x0A"

text \<open>\<open>str.isspace\<close> on one code point below 256.\<close>

definition isspace :: "char \<Rightarrow> bool" where
  "isspace ch = (let n = of_char ch :: nat in
     (9 \<le> n \<and> n \<le> 13) \<or> (28 \<le> n \<and> n \<le> 32) \<or> n = 133 \<or> n = 160)"

text \<open>\<open>s.strip()\<close>: drop leading and trailing whitespace.\<close>

definition strip :: "string \<Rightarrow> string" where
  "strip s = rev (dropWhile isspace (rev (dropWhile isspace s)))"

text \<open>\<open>sep in text\<close>: substring test.\<close>

fun str_contains :: "string \<Rightarrow> string \<Rightarrow> bool" where
  "str_contains sep [] = (sep = [])"
| "str_contains sep (ch # cs) = (take (length sep) (ch # cs) = sep \<or> str_contains sep cs)"

text \<open>
  \<open>text.split(sep)\<close> for a non-empty separator: scan from the left, cut at every
  (leftmost, non-overlapping) occurrence. \<open>cur\<close> is the part being collected. Python
  raises \<open>ValueError\<close> for an empty separator; \<open>_split_text\<close> never calls \<open>split\<close>
  with one (the empty separator is taken by the branch before), and \<open>str_split\<close> returns
  the exception as a value.
\<close>

fun str_split_from :: "string \<Rightarrow> string \<Rightarrow> string \<Rightarrow> string list" where
  "str_split_from sep cur [] = [cur]"
| "str_split_from sep cur (ch # cs) =
     (if sep \<noteq> [] \<and> take (length sep) (ch # cs) = sep
      then cur # str_split_from sep [] (drop (length sep) (ch # cs))
      else str_split_from sep (cur @ [ch]) cs)"

definition str_split :: "string \<Rightarrow> string \<Rightarrow> exn + string list" where
  "str_split sep s = (if sep = [] then Inl ValueError else Inr (str_split_from sep [] s))"

text \<open>
  Python slicing \<open>xs[i:j]\<close> with its clamping: a negative index counts from the end,
  and both ends are clipped to \<open>0 .. len(xs)\<close>.
\<close>

definition slice_index :: "int \<Rightarrow> nat \<Rightarrow> nat" where
  "slice_index i n = (if i < 0 then nat (max (i + int n) 0) else min (nat i) n)"

definition py_slice :: "'a list \<Rightarrow> int \<Rightarrow> int \<Rightarrow> 'a list" where
  "py_slice xs i j =
     (let a = slice_index i (length xs); b = slice_index j (length xs)
      in take (b - a) (drop a xs))"

text \<open>\<open>xs[i:]\<close>.\<close>

definition py_slice_from :: "'a list \<Rightarrow> int \<Rightarrow> 'a list" where
  "py_slice_from xs i = drop (slice_index i (length xs)) xs"

text \<open>
  \<open>range(start, stop, step)\<close> as the list it iterates over; \<open>step = 0\<close> raises
  \<open>ValueError\<close>, a range whose step points away from \<open>stop\<close> is empty.
\<close>

definition py_range :: "int \<Rightarrow> int \<Rightarrow> int \<Rightarrow> exn + int list" where
  "py_range start stop step =
     (if step = 0 then Inl ValueError
      else if step > 0
      then Inr (map (\<lambda>k. start + int k * step) [0 ..< nat ((stop - start + step - 1) div step)])
      else Inr (map (\<lambda>k. start + int k * step) [0 ..< nat ((start - stop - step - 1) div (- step))]))"


section \<open>TextChunker (src/chunking/text\_chunker.py)\<close>

record text_chunker =
  chunk_size :: int
  chunk_overlap :: int
  separators :: "string list"

definition default_separators :: "string list" where
  "default_separators = [[LF, LF], [LF], ''. '', ''! '', ''? '', '' '', '''']"

text \<open>
  \<open>TextChunker.__init__\<close>: stores its arguments. The body has no check and no
  \<open>raise\<close>; the result type is the one every call has (exception or value), and the
  constructor only ever takes the value branch.
\<close>

definition TextChunker_init :: "int \<Rightarrow> int \<Rightarrow> exn + text_chunker" where
  "TextChunker_init csize coverlap =
     Inr \<lparr>chunk_size = csize, chunk_overlap = coverlap, separators = default_separators\<rparr>"

text \<open>
  Lines 41-44, the character-level fallback: slices \<open>text[i : i + chunk_size]\<close> for
  \<open>i\<close> in \<open>range(0, len(text), chunk_size - chunk_overlap)\<close>, empty slices skipped.
\<close>

definition char_split :: "text_chunker \<Rightarrow> string \<Rightarrow> exn + string list" where
  "char_split c text =
     (case py_range 0 (int (length text)) (chunk_size c - chunk_overlap c) of
        Inl e \<Rightarrow> Inl e
      | Inr starts \<Rightarrow>
          Inr (filter (\<lambda>chunk. chunk \<noteq> []) (map (\<lambda>i. py_slice text i (i + chunk_size c)) starts)))"

text \<open>\<open>if current_chunk: chunks.append(current_chunk.strip())\<close>.\<close>

definition flush :: "string \<Rightarrow> string list" where
  "flush current_chunk = (if current_chunk \<noteq> [] then [strip current_chunk] else [])"

text \<open>
  Lines 51-67, the loop over the parts with the buffer \<open>current_chunk\<close>; the result is
  what the loop and the final flush append to \<open>chunks\<close>. \<open>rec\<close> is the recursive call
  \<open>self._split_text\<close> made for a part longer than \<open>chunk_size\<close>.
\<close>

fun pack_parts ::
  "(string \<Rightarrow> exn + string list) \<Rightarrow> text_chunker \<Rightarrow> string \<Rightarrow> string list \<Rightarrow> string
     \<Rightarrow> exn + string list" where
  "pack_parts rec c separator [] current_chunk = Inr (flush current_chunk)"
| "pack_parts rec c separator (part # parts) current_chunk =
     (if int (length current_chunk) + int (length part) + int (length separator) \<le> chunk_size c
      then pack_parts rec c separator parts (current_chunk @ part @ separator)
      else if int (length part) > chunk_size c
      then (case rec part of
              Inl e \<Rightarrow> Inl e
            | Inr sub_chunks \<Rightarrow>
                (case pack_parts rec c separator parts [] of
                   Inl e \<Rightarrow> Inl e
                 | Inr rest \<Rightarrow> Inr (flush current_chunk @ sub_chunks @ rest)))
      else (case pack_parts rec c separator parts (part @ separator) of
              Inl e \<Rightarrow> Inl e
            | Inr rest \<Rightarrow> Inr (flush current_chunk @ rest)))"

text \<open>
  Lines 35-68: the value of \<open>chunks\<close> when the \<open>for separator in self.separators\<close> loop
  is left. The loop stops at the first separator that is empty or occurs in the text;
  if there is none, \<open>chunks\<close> stays empty.
\<close>

definition build_chunks ::
  "(string \<Rightarrow> exn + string list) \<Rightarrow> text_chunker \<Rightarrow> string \<Rightarrow> exn + string list" where
  "build_chunks rec c text =
     (case find (\<lambda>separator. separator = [] \<or> str_contains separator text) (separators c) of
        None \<Rightarrow> Inr []
      | Some separator \<Rightarrow>
          if separator = [] then char_split c text
          else (case str_split separator text of
                  Inl e \<Rightarrow> Inl e
                | Inr parts \<Rightarrow> pack_parts rec c separator parts []))"

text \<open>Line 76: the overlap taken from the previous chunk.\<close>

definition overlap_text :: "text_chunker \<Rightarrow> string \<Rightarrow> string" where
  "overlap_text c prev_chunk =
     (if int (length prev_chunk) > chunk_overlap c
      then py_slice_from prev_chunk (- chunk_overlap c) else prev_chunk)"

text \<open>Lines 71-80, the overlap post-pass.\<close>

definition add_overlap :: "text_chunker \<Rightarrow> string list \<Rightarrow> string list" where
  "add_overlap c chunks =
     (if chunk_overlap c > 0 \<and> length chunks > 1
      then hd chunks #
           map (\<lambda>i. overlap_text c (chunks ! (i - 1)) @ '' '' @ chunks ! i) [1 ..< length chunks]
      else chunks)"


text \<open>
  The recursive call of \<open>_split_text\<close> is made on parts of the text only, and a part
  of a text that contains the separator is shorter than the text: this is what makes
  the recursion end.
\<close>

lemma str_split_from_length_le:
  "p \<in> set (str_split_from sep cur s) \<Longrightarrow> length p \<le> length cur + length s"
  by (induction sep cur s rule: str_split_from.induct) (auto split: if_splits)

lemma str_split_from_length_less:
  "sep \<noteq> [] \<Longrightarrow> str_contains sep s \<Longrightarrow> p \<in> set (str_split_from sep cur s)
     \<Longrightarrow> length p < length cur + length s"
proof (induction sep cur s rule: str_split_from.induct)
  case (1 sep cur)
  then show ?case by simp
next
  case (2 sep cur ch cs)
  show ?case
  proof (cases "take (length sep) (ch # cs) = sep")
    case True
    with 2 have "p = cur \<or> p \<in> set (str_split_from sep [] (drop (length sep) (ch # cs)))"
      by simp
    then show ?thesis
    proof
      assume "p = cur" then show ?thesis by simp
    next
      assume "p \<in> set (str_split_from sep [] (drop (length sep) (ch # cs)))"
      from str_split_from_length_le [OF this] 2(3) show ?thesis
        by (cases sep) auto
    qed
  next
    case False
    with 2 show ?thesis by auto
  qed
qed

lemma pack_parts_cong:
  "(\<And>p. p \<in> set parts \<Longrightarrow> rec p = rec' p)
     \<Longrightarrow> pack_parts rec c sep parts cur = pack_parts rec' c sep parts cur"
  by (induction parts arbitrary: cur) (auto split: sum.splits)

lemma build_chunks_cong [fundef_cong]:
  assumes "c = c'" and "text = text'"
    and "\<And>p. length p < length text' \<Longrightarrow> rec p = rec' p"
  shows "build_chunks rec c text = build_chunks rec' c' text'"
proof -
  have "pack_parts rec c' sep (str_split_from sep [] text') [] =
        pack_parts rec' c' sep (str_split_from sep [] text') []"
    if "sep \<noteq> []" "str_contains sep text'" for sep
    using that assms(3) str_split_from_length_less [of sep text' _ "[]"]
    by (intro pack_parts_cong) auto
  then show ?thesis
    using assms(1,2)
    by (auto simp: build_chunks_def str_split_def split: option.splits
        dest: find_Some_iff [THEN iffD1])
qed

text \<open>\<open>TextChunker._split_text\<close>.\<close>

function split_text :: "text_chunker \<Rightarrow> string \<Rightarrow> exn + string list" where
  "split_text c text =
     (if int (length text) \<le> chunk_size c then Inr [text]
      else (case build_chunks (split_text c) c text of
              Inl e \<Rightarrow> Inl e
            | Inr chunks \<Rightarrow> Inr (add_overlap c chunks)))"
  by pat_completeness auto
termination
  by (relation "measure (\<lambda>(c, text). length text)") auto

declare split_text.simps [simp del]

text \<open>
  The value of \<open>chunks\<close> at line 70 of \<open>_split_text\<close>, before the overlap post-pass
  (for a text that takes the early return of line 33, the returned list).
\<close>

definition chunks_before_overlap :: "text_chunker \<Rightarrow> string \<Rightarrow> exn + string list" where
  "chunks_before_overlap c text =
     (if int (length text) \<le> chunk_size c then Inr [text]
      else build_chunks (split_text c) c text)"





text \<open>
  The separator that \<open>_split_text\<close> chooses for a text, and the parts it packs: used
  to say that no part is longer than \<open>chunk_size\<close>, so that no recursive call is made
  (the character-level fallback makes none).
\<close>

definition chosen_separator :: "text_chunker \<Rightarrow> string \<Rightarrow> string option" where
  "chosen_separator c text =
     find (\<lambda>separator. separator = [] \<or> str_contains separator text) (separators c)"

definition no_oversize_part :: "text_chunker \<Rightarrow> string \<Rightarrow> bool" where
  "no_oversize_part c text =
     (case chosen_separator c text of
        None \<Rightarrow> True
      | Some separator \<Rightarrow>
          separator = []
          \<or> list_all (\<lambda>part. int (length part) \<le> chunk_size c)
               (str_split_from separator [] text))"

text \<open>
  The chunks that the recursive call of \<open>_split_text\<close> returns for a part (none if
  the call raises).
\<close>

definition sub_chunks :: "text_chunker \<Rightarrow> string \<Rightarrow> string list" where
  "sub_chunks c part = (case split_text c part of Inl e \<Rightarrow> [] | Inr chunks \<Rightarrow> chunks)"

text \<open>
  A chunk dictionary: string keys, values that are strings (\<open>text\<close>, caller metadata)
  or integers (\<open>chunk_index\<close>, \<open>total_chunks\<close>).
\<close>

datatype pyval = PStr string | PInt int

type_synonym pydict = "string \<rightharpoonup> pyval"

text \<open>
  \<open>TextChunker.chunk_text\<close>. \<open>metadata\<close> is \<open>None\<close> or a dictionary;
  \<open>chunk_data.update(metadata)\<close> is \<open>++\<close>, where the right operand wins. For an empty
  dictionary the source skips the update, which would change nothing.
\<close>

definition chunk_data :: "pydict option \<Rightarrow> nat \<Rightarrow> nat \<Rightarrow> string \<Rightarrow> pydict" where
  "chunk_data metadata n_chunks i chunk =
     (let d = [''text'' \<mapsto> PStr chunk,
               ''chunk_index'' \<mapsto> PInt (int i),
               ''total_chunks'' \<mapsto> PInt (int n_chunks)]
      in case metadata of None \<Rightarrow> d | Some m \<Rightarrow> d ++ m)"

definition chunk_text :: "text_chunker \<Rightarrow> string \<Rightarrow> pydict option \<Rightarrow> exn + pydict list" where
  "chunk_text c text metadata =
     (case split_text c text of
        Inl e \<Rightarrow> Inl e
      | Inr chunks \<Rightarrow>
          Inr (map (\<lambda>(i, chunk). chunk_data metadata (length chunks) i chunk)
                   (enumerate 0 chunks)))"


section \<open>FileTracker (src/utils/file\_tracker.py)\<close>

text \<open>
  What \<open>os.stat\<close> returns, as far as the tracker reads it. \<open>st_mtime\<close> is a finite
  float; only its equality with a stored value is ever used, so it is modelled by the
  real number it denotes.
\<close>

record stat_result =
  st_size :: int
  st_mtime :: real

text \<open>The dictionary returned by \<open>_get_file_info\<close>.\<close>

record file_info =
  info_size :: int
  info_modified_time :: real
  info_modified_date :: string

text \<open>
  A stored entry of \<open>processed_files\<close>. The entries are read with \<open>.get\<close>, which gives
  \<open>None\<close> for a missing key, so every field is optional.
\<close>

record file_record =
  stored_size :: "int option"
  stored_modified_time :: "real option"
  stored_modified_date :: "string option"
  processed_date :: "string option"
  chunks_count :: "int option"
  content_hash :: "string option"

type_synonym byte = "8 word"

text \<open>
  The world outside the tracker, at the time of one call: the results of \<open>os.stat\<close>,
  of opening and reading a file, of \<open>datetime.fromtimestamp(t).isoformat()\<close> and of
  \<open>datetime.now().isoformat()\<close>, the SHA-256 digest as a function of the bytes hashed,
  and the way, if any, in which saving the tracking document fails.
\<close>

text \<open>
  \<open>_save_tracking_data\<close> can fail before the tracking file is opened
  (\<open>os.makedirs\<close> or \<open>open\<close> raises: the file is as it was) or after it was opened
  with mode \<open>'w'\<close>, which truncates it (\<open>json.dump\<close> or a write raises: the file holds
  a truncated or partial text).
\<close>

datatype save_fault = FailsBeforeOpen exn | FailsWhileWriting exn

text \<open>
  The persisted tracking document: no file, a file holding the JSON text of a mapping,
  or a file holding a text that is not a JSON document (empty or cut off).
\<close>

datatype document = NoFile | Json "(string \<times> file_record) list" | Unparseable

record os_env =
  os_stat :: "string \<Rightarrow> exn + stat_result"
  read_bytes :: "string \<Rightarrow> exn + byte list"
  isoformat :: "real \<Rightarrow> exn + string"
  now_isoformat :: string
  sha256_hexdigest :: "byte list \<Rightarrow> string"
  save_failure :: "save_fault option"

text \<open>
  The tracker object together with the persisted tracking document.
  \<open>processed_files\<close> is a Python \<open>dict\<close>: an association list in insertion order
  (the order in which \<open>.items()\<close> iterates), looked up with \<open>map_of\<close> and assigned with
  \<open>AList.update\<close>, which keeps the place of an existing key and appends a new one.
  \<open>tracking_document\<close> is the state of the JSON file.
\<close>

record file_tracker =
  tracking_file :: string
  processed_files :: "(string \<times> file_record) list"
  tracking_document :: document

text \<open>\<open>os.path.basename\<close> (POSIX): what follows the last slash.\<close>

definition basename :: "string \<Rightarrow> string" where
  "basename p = rev (takeWhile (\<lambda>ch. ch \<noteq> CHR ''/'') (rev p))"

text \<open>\<open>str.rfind\<close> of one character: the last index, or \<open>-1\<close>.\<close>

definition rfind :: "string \<Rightarrow> char \<Rightarrow> int" where
  "rfind s ch =
     (if ch \<in> set s then int (length s) - 1 - int (length (takeWhile (\<lambda>x. x \<noteq> ch) (rev s)))
      else - 1)"

text \<open>
  \<open>os.path.splitext\<close> (POSIX): split at the last dot of the last path component,
  unless that component has only dots before it.
\<close>

definition splitext :: "string \<Rightarrow> string \<times> string" where
  "splitext p =
     (let sepIndex = rfind p (CHR ''/''); dotIndex = rfind p (CHR ''.'')
      in if dotIndex > sepIndex
            \<and> list_ex (\<lambda>ch. ch \<noteq> CHR ''.'') (py_slice p (sepIndex + 1) dotIndex)
         then (take (nat dotIndex) p, drop (nat dotIndex) p)
         else (p, []))"

text \<open>
  \<open>_save_tracking_data\<close>: rewrite the whole document from the in-memory mapping. A
  failure after the file was opened leaves it truncated or partly written.
\<close>

definition save_tracking_data :: "os_env \<Rightarrow> file_tracker \<Rightarrow> (exn + unit) \<times> file_tracker" where
  "save_tracking_data env t =
     (case save_failure env of
        Some (FailsBeforeOpen e) \<Rightarrow> (Inl e, t)
      | Some (FailsWhileWriting e) \<Rightarrow> (Inl e, t\<lparr>tracking_document := Unparseable\<rparr>)
      | None \<Rightarrow> (Inr (), t\<lparr>tracking_document := Json (processed_files t)\<rparr>))"

text \<open>
  \<open>_load_tracking_data\<close>: the mapping of the document; a missing file and a document
  that cannot be parsed (a warning is printed) both give the empty mapping.
\<close>

definition load_tracking_data :: "document \<Rightarrow> (string \<times> file_record) list" where
  "load_tracking_data doc = (case doc of NoFile \<Rightarrow> [] | Json items \<Rightarrow> items | Unparseable \<Rightarrow> [])"

text \<open>\<open>FileTracker.__init__\<close>.\<close>

definition FileTracker_init :: "string \<Rightarrow> document \<Rightarrow> file_tracker" where
  "FileTracker_init path doc =
     \<lparr>tracking_file = path, processed_files = load_tracking_data doc, tracking_document = doc\<rparr>"

text \<open>\<open>_get_file_info\<close>.\<close>

definition get_file_info :: "os_env \<Rightarrow> string \<Rightarrow> exn + file_info" where
  "get_file_info env file_path =
     (case os_stat env file_path of
        Inl e \<Rightarrow> Inl e
      | Inr st \<Rightarrow>
          (case isoformat env (st_mtime st) of
             Inl e \<Rightarrow> Inl e
           | Inr d \<Rightarrow>
               Inr \<lparr>info_size = st_size st, info_modified_time = st_mtime st,
                    info_modified_date = d\<rparr>))"

text \<open>
  The blocks that \<open>iter(lambda: f.read(4096), b"")\<close> yields for a file with the given
  content.
\<close>

fun read_blocks :: "nat \<Rightarrow> byte list \<Rightarrow> byte list list" where
  "read_blocks n bs =
     (if n = 0 \<or> bs = [] then [] else take n bs # read_blocks n (drop n bs))"

declare read_blocks.simps [simp del]

text \<open>
  \<open>_get_file_hash\<close>: the hash object is fed the blocks in order; its digest is the
  digest of all the bytes it was fed.
\<close>

definition get_file_hash :: "os_env \<Rightarrow> string \<Rightarrow> exn + string" where
  "get_file_hash env file_path =
     (case read_bytes env file_path of
        Inl e \<Rightarrow> Inl e
      | Inr content \<Rightarrow>
          Inr (sha256_hexdigest env (fold (\<lambda>block fed. fed @ block) (read_blocks 4096 content) [])))"

text \<open>
  The comparison of lines 99-100 and 131-132: has the file changed (size or modified
  time) against the stored entry?
\<close>

definition has_changed :: "file_info \<Rightarrow> file_record \<Rightarrow> bool" where
  "has_changed current_info stored_info =
     (Some (info_size current_info) \<noteq> stored_size stored_info
      \<or> Some (info_modified_time current_info) \<noteq> stored_modified_time stored_info)"

text \<open>\<open>is_processed\<close>. Only \<open>OSError\<close> is caught; any other exception leaves the call.\<close>

definition is_processed :: "os_env \<Rightarrow> file_tracker \<Rightarrow> string \<Rightarrow> (exn + bool) \<times> file_tracker" where
  "is_processed env t file_path =
     (let filename = basename file_path in
      case map_of (processed_files t) filename of
        None \<Rightarrow> (Inr False, t)
      | Some stored_info \<Rightarrow>
          (case get_file_info env file_path of
             Inl e \<Rightarrow> if e = OSError then (Inr False, t) else (Inl e, t)
           | Inr current_info \<Rightarrow>
               if has_changed current_info stored_info then (Inr False, t) else (Inr True, t)))"

text \<open>\<open>is_updated\<close>.\<close>

definition is_updated :: "os_env \<Rightarrow> file_tracker \<Rightarrow> string \<Rightarrow> (exn + bool) \<times> file_tracker" where
  "is_updated env t file_path =
     (let filename = basename file_path in
      case map_of (processed_files t) filename of
        None \<Rightarrow> (Inr False, t)
      | Some stored_info \<Rightarrow>
          (case get_file_info env file_path of
             Inl e \<Rightarrow> if e = OSError then (Inr False, t) else (Inl e, t)
           | Inr current_info \<Rightarrow>
               if has_changed current_info stored_info then (Inr True, t) else (Inr False, t)))"

text \<open>\<open>mark_processed\<close>.\<close>

definition mark_processed ::
  "os_env \<Rightarrow> file_tracker \<Rightarrow> string \<Rightarrow> int \<Rightarrow> (exn + unit) \<times> file_tracker" where
  "mark_processed env t file_path count =
     (let filename = basename file_path in
      case get_file_info env file_path of
        Inl e \<Rightarrow> (Inl e, t)
      | Inr fi \<Rightarrow>
          (case get_file_hash env file_path of
             Inl e \<Rightarrow> (Inl e, t)
           | Inr file_hash \<Rightarrow>
               save_tracking_data env
                 (t\<lparr>processed_files :=
                      AList.update filename
                        \<lparr>stored_size = Some (info_size fi),
                         stored_modified_time = Some (info_modified_time fi),
                         stored_modified_date = Some (info_modified_date fi),
                         processed_date = Some (now_isoformat env),
                         chunks_count = Some count,
                         content_hash = Some file_hash\<rparr>
                        (processed_files t)\<rparr>)))"

text \<open>\<open>get_processed_info\<close>.\<close>

definition get_processed_info ::
  "file_tracker \<Rightarrow> string \<Rightarrow> (exn + file_record option) \<times> file_tracker" where
  "get_processed_info t file_path = (Inr (map_of (processed_files t) (basename file_path)), t)"

text \<open>\<open>get_stats\<close>.\<close>

record stats =
  total_files :: nat
  total_chunks :: int
  stats_tracking_file :: string

definition get_stats :: "file_tracker \<Rightarrow> (exn + stats) \<times> file_tracker" where
  "get_stats t =
     (Inr \<lparr>total_files = length (processed_files t),
           total_chunks =
             sum_list (map (\<lambda>(filename, info). case chunks_count info of None \<Rightarrow> 0 | Some n \<Rightarrow> n)
                           (processed_files t)),
           stats_tracking_file = tracking_file t\<rparr>,
      t)"

text \<open>
  Lines 223-234 of \<open>find_duplicate_by_hash\<close>: the scan of \<open>processed_files.items()\<close>, in
  the order of the dictionary.
\<close>

fun scan_for_hash ::
  "string \<Rightarrow> string \<Rightarrow> (string \<times> file_record) list \<Rightarrow> (string \<times> string) option" where
  "scan_for_hash current_filename current_hash [] = None"
| "scan_for_hash current_filename current_hash ((filename, info) # items) =
     (if filename = current_filename then scan_for_hash current_filename current_hash items
      else if content_hash info = Some current_hash then Some (filename, snd (splitext filename))
      else scan_for_hash current_filename current_hash items)"

text \<open>
  \<open>find_duplicate_by_hash\<close>. The whole body is inside \<open>try ... except Exception\<close>, whose
  handler prints a warning and returns \<open>None\<close>.
\<close>

definition find_duplicate_by_hash ::
  "os_env \<Rightarrow> file_tracker \<Rightarrow> string \<Rightarrow> (exn + (string \<times> string) option) \<times> file_tracker" where
  "find_duplicate_by_hash env t file_path =
     (case get_file_hash env file_path of
        Inl e \<Rightarrow> (Inr None, t)
      | Inr current_hash \<Rightarrow>
          (Inr (scan_for_hash (basename file_path) current_hash (processed_files t)), t))"


text \<open>
  The three classes of a file in the words of the specification: new (absent from the
  store), processed-unchanged (stored size and modified time both equal the current
  ones) and updated (present, with a differing size or modified time). The current
  values are those of the stat call.
\<close>

definition spec_new :: "file_tracker \<Rightarrow> string \<Rightarrow> bool" where
  "spec_new t file_path = (basename file_path \<notin> fst ` set (processed_files t))"

definition spec_processed_unchanged :: "os_env \<Rightarrow> file_tracker \<Rightarrow> string \<Rightarrow> bool" where
  "spec_processed_unchanged env t file_path =
     (case (map_of (processed_files t) (basename file_path), os_stat env file_path) of
        (Some stored, Inr st) \<Rightarrow>
          stored_size stored = Some (st_size st)
          \<and> stored_modified_time stored = Some (st_mtime st)
      | _ \<Rightarrow> False)"

definition spec_updated :: "os_env \<Rightarrow> file_tracker \<Rightarrow> string \<Rightarrow> bool" where
  "spec_updated env t file_path =
     (case (map_of (processed_files t) (basename file_path), os_stat env file_path) of
        (Some stored, Inr st) \<Rightarrow>
          stored_size stored \<noteq> Some (st_size st)
          \<or> stored_modified_time stored \<noteq> Some (st_mtime st)
      | _ \<Rightarrow> False)"

definition exactly_one :: "bool \<Rightarrow> bool \<Rightarrow> bool \<Rightarrow> bool" where
  "exactly_one a b c = ((a \<and> \<not> b \<and> \<not> c) \<or> (\<not> a \<and> b \<and> \<not> c) \<or> (\<not> a \<and> \<not> b \<and> c))"


section \<open>Concrete stores and file systems\<close>

definition example_record :: "int \<Rightarrow> real \<Rightarrow> string \<Rightarrow> file_record" where
  "example_record sz mt h =
     \<lparr>stored_size = Some sz, stored_modified_time = Some mt,
      stored_modified_date = Some ''2024-01-01T00:00:00'',
      processed_date = Some ''2024-01-02T00:00:00'',
      chunks_count = Some 4, content_hash = Some h\<rparr>"

definition example_tracker :: "(string \<times> file_record) list \<Rightarrow> file_tracker" where
  "example_tracker items =
     \<lparr>tracking_file = ''data/processed_files.json'', processed_files = items,
      tracking_document = Json items\<rparr>"

text \<open>A file system where every file has the same three bytes.\<close>

definition env_readable :: os_env where
  "env_readable =
     \<lparr>os_stat = (\<lambda>p. Inr \<lparr>st_size = 3, st_mtime = 1700000000\<rparr>),
      read_bytes = (\<lambda>p. Inr [1, 2, 3]),
      isoformat = (\<lambda>t. Inr ''2023-11-14T22:13:20''),
      now_isoformat = ''2024-01-03T00:00:00'',
      sha256_hexdigest = (\<lambda>bs. if bs = [] then ''e3b0'' else ''039058''),
      save_failure = None\<rparr>"

text \<open>A file system where no file can be stat'ed or opened.\<close>

definition env_unreadable :: os_env where
  "env_unreadable =
     \<lparr>os_stat = (\<lambda>p. Inl OSError),
      read_bytes = (\<lambda>p. Inl OSError),
      isoformat = (\<lambda>t. Inr ''2023-11-14T22:13:20''),
      now_isoformat = ''2024-01-03T00:00:00'',
      sha256_hexdigest = (\<lambda>bs. if bs = [] then ''e3b0'' else ''039058''),
      save_failure = None\<rparr>"


section \<open>Properties of the file tracker\<close>

lemma fold_read_blocks:
  "0 < n \<Longrightarrow> fold (\<lambda>block fed. fed @ block) (read_blocks n bs) acc = acc @ bs"
proof (induction n bs arbitrary: acc rule: read_blocks.induct)
  case (1 n bs)
  show ?case
  proof (cases "bs = []")
    case True
    then show ?thesis by (simp add: read_blocks.simps)
  next
    case False
    with 1 show ?thesis
      by (subst read_blocks.simps) simp
  qed
qed

text \<open>Reading block by block hashes the whole content.\<close>

lemma get_file_hash_digest:
  "get_file_hash env p =
     (case read_bytes env p of
        Inl e \<Rightarrow> Inl e
      | Inr content \<Rightarrow> Inr (sha256_hexdigest env content))"
  by (simp add: get_file_hash_def fold_read_blocks split: sum.splits)

lemma scan_for_hash_filter:
  "scan_for_hash cur h items =
     (case filter (\<lambda>(filename, info). filename \<noteq> cur \<and> content_hash info = Some h) items of
        [] \<Rightarrow> None
      | (filename, info) # _ \<Rightarrow> Some (filename, snd (splitext filename)))"
  by (induction cur h items rule: scan_for_hash.induct) auto

text \<open>
  C2, as the code has it: when hashing the input file fails, \<open>find_duplicate_by_hash\<close>
  does not hand the error to its caller; the handler returns \<open>None\<close>, the result of a
  scan that found no duplicate, and the tracker (in-memory mapping and persisted
  document) is left as it was.
\<close>

theorem find_duplicate_swallows_hash_failure:
  "get_file_hash env file_path = Inl e \<Longrightarrow>
     find_duplicate_by_hash env t file_path = (Inr None, t)"
  by (simp add: find_duplicate_by_hash_def)

theorem find_duplicate_swallows_hash_failure_witness:
  "get_file_hash env_unreadable ''/raw/d.txt'' = Inl OSError
   \<and> find_duplicate_by_hash env_unreadable
        (example_tracker [(''a.txt'', example_record 3 17 ''039058'')]) ''/raw/d.txt''
     = (Inr None, example_tracker [(''a.txt'', example_record 3 17 ''039058'')])"
proof -
  have h: "get_file_hash env_unreadable ''/raw/d.txt'' = Inl OSError"
    by (simp add: get_file_hash_digest env_unreadable_def)
  from h find_duplicate_swallows_hash_failure [OF h] show ?thesis
    by simp
qed

text \<open>
  C2 as stated fails: with an unreadable input file the hash computation raises
  \<open>OSError\<close>, and the caller gets the normal result \<open>None\<close>, not the error.
\<close>

theorem find_duplicate_propagates_counterexample:
  "get_file_hash env_unreadable ''/raw/c.txt'' = Inl OSError
   \<and> fst (find_duplicate_by_hash env_unreadable
        (example_tracker [(''b.txt'', example_record 3 17 ''039058'')]) ''/raw/c.txt'')
     = Inr None"
  by (simp add: find_duplicate_by_hash_def get_file_hash_digest env_unreadable_def)

text \<open>
  C3, as the code has it: \<open>find_duplicate_by_hash\<close> returns the first record, in the
  order of the dictionary (insertion order), whose filename is not the queried one and
  whose content hash equals the digest of the queried file.
\<close>

theorem find_duplicate_first_in_store_order:
  "get_file_hash env file_path = Inr h \<Longrightarrow>
     find_duplicate_by_hash env t file_path =
       (Inr (case filter (\<lambda>(filename, info).
                           filename \<noteq> basename file_path \<and> content_hash info = Some h)
                        (processed_files t) of
               [] \<Rightarrow> None
             | (filename, info) # _ \<Rightarrow> Some (filename, snd (splitext filename))),
        t)"
  by (simp add: find_duplicate_by_hash_def scan_for_hash_filter)

theorem find_duplicate_first_in_store_order_witness:
  "get_file_hash env_readable ''/raw/new.md'' = Inr ''039058''
   \<and> fst (find_duplicate_by_hash env_readable
        (example_tracker [(''new.md'', example_record 3 15 ''039058''),
                          (''other.pdf'', example_record 9 16 ''77aa''),
                          (''report.docx'', example_record 3 17 ''039058''),
                          (''copy.txt'', example_record 3 18 ''039058'')]) ''/raw/new.md'')
     = Inr (Some (''report.docx'', ''.docx''))"
proof -
  have h: "get_file_hash env_readable ''/raw/new.md'' = Inr ''039058''"
    by (simp add: get_file_hash_digest env_readable_def)
  from h find_duplicate_first_in_store_order [OF h] show ?thesis
    by (simp add: example_tracker_def example_record_def basename_def
        splitext_def rfind_def py_slice_def slice_index_def)
qed

text \<open>
  C3 as stated fails: two stores with the same two records, inserted in different
  orders, give different answers, and the first store's answer \<open>b.txt\<close> is not the
  lexicographically first candidate \<open>a.txt\<close>.
\<close>

theorem find_duplicate_lexicographic_counterexample:
  "fst (find_duplicate_by_hash env_readable
          (example_tracker [(''b.txt'', example_record 3 17 ''039058''),
                            (''a.txt'', example_record 3 16 ''039058'')]) ''/raw/c.txt'')
     = Inr (Some (''b.txt'', ''.txt''))
   \<and> fst (find_duplicate_by_hash env_readable
          (example_tracker [(''a.txt'', example_record 3 16 ''039058''),
                            (''b.txt'', example_record 3 17 ''039058'')]) ''/raw/c.txt'')
     = Inr (Some (''a.txt'', ''.txt''))
   \<and> ''a.txt'' < ''b.txt''"
  by (simp add: find_duplicate_by_hash_def get_file_hash_digest env_readable_def
      example_tracker_def example_record_def basename_def
      splitext_def rfind_def py_slice_def slice_index_def)

text \<open>
  C4, as the code has it: \<open>is_processed\<close> and \<open>is_updated\<close> are never both true. When
  the file information can be read, the file is in exactly one of the three classes,
  \<open>is_processed\<close> is true exactly for processed-unchanged and \<open>is_updated\<close> exactly
  for updated. When reading it fails, both answers are false for a file absent from the
  store and for an \<open>OSError\<close>, also for a file present in the store; any other exception
  leaves both calls.
\<close>

theorem is_processed_is_updated_classification:
  "\<not> (fst (is_processed env t file_path) = Inr True
       \<and> fst (is_updated env t file_path) = Inr True)
   \<and> (case get_file_info env file_path of
        Inr current \<Rightarrow>
          exactly_one (spec_new t file_path) (spec_processed_unchanged env t file_path)
            (spec_updated env t file_path)
          \<and> fst (is_processed env t file_path) = Inr (spec_processed_unchanged env t file_path)
          \<and> fst (is_updated env t file_path) = Inr (spec_updated env t file_path)
      | Inl e \<Rightarrow>
          if spec_new t file_path \<or> e = OSError
          then fst (is_processed env t file_path) = Inr False
               \<and> fst (is_updated env t file_path) = Inr False
          else fst (is_processed env t file_path) = Inl e
               \<and> fst (is_updated env t file_path) = Inl e)"
  by (auto simp: is_processed_def is_updated_def Let_def has_changed_def spec_new_def
        spec_processed_unchanged_def spec_updated_def exactly_one_def get_file_info_def
        map_of_eq_None_iff [symmetric]
      split: option.splits sum.splits)

theorem is_processed_is_updated_classification_witness:
  "get_file_info env_readable ''/raw/a.txt''
     = Inr \<lparr>info_size = 3, info_modified_time = 1700000000,
            info_modified_date = ''2023-11-14T22:13:20''\<rparr>
   \<and> fst (is_processed env_readable
            (example_tracker [(''a.txt'', example_record 3 1700000000 ''039058'')]) ''/raw/a.txt'')
       = Inr True
   \<and> fst (is_updated env_readable
            (example_tracker [(''a.txt'', example_record 3 1700000000 ''039058'')]) ''/raw/a.txt'')
       = Inr False
   \<and> fst (is_processed env_readable
            (example_tracker [(''a.txt'', example_record 2 1600000000 ''039058'')]) ''/raw/a.txt'')
       = Inr False
   \<and> fst (is_updated env_readable
            (example_tracker [(''a.txt'', example_record 2 1600000000 ''039058'')]) ''/raw/a.txt'')
       = Inr True"
proof -
  have info: "get_file_info env_readable ''/raw/a.txt''
      = Inr \<lparr>info_size = 3, info_modified_time = 1700000000,
             info_modified_date = ''2023-11-14T22:13:20''\<rparr>"
    by (simp add: get_file_info_def env_readable_def)
  have same: "spec_processed_unchanged env_readable
      (example_tracker [(''a.txt'', example_record 3 1700000000 ''039058'')]) ''/raw/a.txt''"
    and not_upd: "\<not> spec_updated env_readable
      (example_tracker [(''a.txt'', example_record 3 1700000000 ''039058'')]) ''/raw/a.txt''"
    and upd: "spec_updated env_readable
      (example_tracker [(''a.txt'', example_record 2 1600000000 ''039058'')]) ''/raw/a.txt''"
    and not_same: "\<not> spec_processed_unchanged env_readable
      (example_tracker [(''a.txt'', example_record 2 1600000000 ''039058'')]) ''/raw/a.txt''"
    by (simp_all add: spec_processed_unchanged_def spec_updated_def env_readable_def
        example_tracker_def example_record_def basename_def)
  show ?thesis
    using info same not_upd upd not_same
      is_processed_is_updated_classification
        [of env_readable "example_tracker [(''a.txt'', example_record 3 1700000000 ''039058'')]"
            "''/raw/a.txt''"]
      is_processed_is_updated_classification
        [of env_readable "example_tracker [(''a.txt'', example_record 2 1600000000 ''039058'')]"
            "''/raw/a.txt''"]
    by simp
qed

text \<open>
  C4 as stated fails for a stat call that fails: a file that is present in the store
  and cannot be stat'ed is not new, not processed-unchanged and not updated, while
  both \<open>is_processed\<close> and \<open>is_updated\<close> answer false.
\<close>

theorem classification_stat_failure_counterexample:
  "fst (is_processed env_unreadable
          (example_tracker [(''a.txt'', example_record 3 17 ''039058'')]) ''/raw/a.txt'')
     = Inr False
   \<and> fst (is_updated env_unreadable
          (example_tracker [(''a.txt'', example_record 3 17 ''039058'')]) ''/raw/a.txt'')
     = Inr False
   \<and> \<not> spec_new (example_tracker [(''a.txt'', example_record 3 17 ''039058'')]) ''/raw/a.txt''
   \<and> \<not> spec_processed_unchanged env_unreadable
         (example_tracker [(''a.txt'', example_record 3 17 ''039058'')]) ''/raw/a.txt''
   \<and> \<not> spec_updated env_unreadable
         (example_tracker [(''a.txt'', example_record 3 17 ''039058'')]) ''/raw/a.txt''"
  by (simp add: is_processed_def is_updated_def get_file_info_def env_unreadable_def
      example_tracker_def example_record_def basename_def spec_new_def
      spec_processed_unchanged_def spec_updated_def)

text \<open>
  C5: if the stat call (with the formatting of its date) or the reading of the
  content for the hash raises, \<open>mark_processed\<close> fails and the tracker is exactly as it
  was before the call: the in-memory mapping and the persisted document are unchanged.
\<close>

theorem mark_processed_failure_leaves_store:
  "get_file_info env file_path = Inl e \<or> get_file_hash env file_path = Inl e \<Longrightarrow>
     (\<exists>e'. fst (mark_processed env t file_path n) = Inl e')
     \<and> snd (mark_processed env t file_path n) = t
     \<and> processed_files (snd (mark_processed env t file_path n)) = processed_files t
     \<and> tracking_document (snd (mark_processed env t file_path n)) = tracking_document t"
  by (auto simp: mark_processed_def split: sum.splits)

theorem mark_processed_failure_leaves_store_witness:
  "get_file_info env_unreadable ''/raw/a.txt'' = Inl OSError
   \<and> mark_processed env_unreadable (example_tracker [(''b.txt'', example_record 3 17 ''039058'')])
        ''/raw/a.txt'' 5
     = (Inl OSError, example_tracker [(''b.txt'', example_record 3 17 ''039058'')])"
proof -
  have h: "get_file_info env_unreadable ''/raw/a.txt'' = Inl OSError"
    by (simp add: get_file_info_def env_unreadable_def)
  from h have "get_file_info env_unreadable ''/raw/a.txt'' = Inl OSError
      \<or> get_file_hash env_unreadable ''/raw/a.txt'' = Inl OSError" by simp
  from mark_processed_failure_leaves_store [OF this] h show ?thesis
    by (simp add: mark_processed_def prod_eq_iff)
qed

text \<open>
  C10: \<open>is_processed\<close>, \<open>is_updated\<close>, \<open>get_processed_info\<close> and \<open>get_stats\<close> return
  the tracker they were given: neither the in-memory mapping nor the persisted document
  changes, whatever the store, the path and the state of the file.
\<close>

theorem read_only_operations_leave_tracker:
  "snd (is_processed env t file_path) = t
   \<and> snd (is_updated env t file_path) = t
   \<and> snd (get_processed_info t file_path) = t
   \<and> snd (get_stats t) = t"
  by (simp add: is_processed_def is_updated_def get_processed_info_def get_stats_def Let_def
      split: option.splits sum.splits)

theorem read_only_operations_leave_tracker_witness:
  "snd (is_processed env_unreadable
          (example_tracker [(''b.txt'', example_record 3 17 ''039058'')]) ''/raw/b.txt'')
     = example_tracker [(''b.txt'', example_record 3 17 ''039058'')]
   \<and> fst (get_stats (example_tracker [(''b.txt'', example_record 3 17 ''039058'')]))
     = Inr \<lparr>total_files = 1, total_chunks = 4,
            stats_tracking_file = ''data/processed_files.json''\<rparr>"
  using read_only_operations_leave_tracker
    [of env_unreadable "example_tracker [(''b.txt'', example_record 3 17 ''039058'')]"
        "''/raw/b.txt''"]
  by (simp add: get_stats_def example_tracker_def example_record_def)



section \<open>Properties of the text chunker\<close>

lemma split_text_fallback:
  "chunk_size c < int (length text) \<Longrightarrow> chosen_separator c text = Some [] \<Longrightarrow>
     split_text c text =
       (case char_split c text of Inl e \<Rightarrow> Inl e | Inr chunks \<Rightarrow> Inr (add_overlap c chunks))"
  by (subst split_text.simps) (simp add: build_chunks_def chosen_separator_def)

lemma char_split_zero_stride:
  "chunk_overlap c = chunk_size c \<Longrightarrow> char_split c text = Inl ValueError"
  by (simp add: char_split_def py_range_def)

lemma py_range_negative_step:
  assumes "step < 0" and "start \<le> stop"
  shows "py_range start stop step = Inr []"
proof -
  have "(start - stop - step - 1) div (- step) \<le> (- step - 1) div (- step)"
    using assms by (intro zdiv_mono1) auto
  also have "(- step - 1) div (- step) = 0"
    using assms by simp
  finally show ?thesis
    using assms by (simp add: py_range_def)
qed

lemma char_split_negative_stride:
  "chunk_size c < chunk_overlap c \<Longrightarrow> char_split c text = Inr []"
  by (simp add: char_split_def py_range_negative_step)

lemma chosen_separator_props:
  assumes "chosen_separator c text = Some sep"
  shows "sep \<in> set (separators c)" and "sep \<noteq> [] \<Longrightarrow> str_contains sep text"
  using assms by (auto simp: chosen_separator_def find_Some_iff dest: nth_mem)

lemma chosen_separator_unbroken:
  "separators c = default_separators \<Longrightarrow>
   \<forall>sep \<in> set (butlast default_separators). \<not> str_contains sep text \<Longrightarrow>
   chosen_separator c text = Some []"
  by (simp add: chosen_separator_def default_separators_def)

text \<open>
  C1, as the code has it: the constructor accepts every configuration and stores the
  two values unchecked, also when \<open>chunk_overlap \<ge> chunk_size\<close>. The misconfiguration
  is met inside \<open>_split_text\<close>: for a text longer than \<open>chunk_size\<close> in which none of
  the structural separators occurs, \<open>_split_text\<close> raises \<open>ValueError\<close> when
  \<open>chunk_overlap = chunk_size\<close> (zero stride) and returns the empty list when
  \<open>chunk_overlap > chunk_size\<close>.
\<close>

theorem TextChunker_init_accepts_every_configuration:
  "\<exists>c. TextChunker_init csize coverlap = Inr c
       \<and> chunk_size c = csize \<and> chunk_overlap c = coverlap
       \<and> separators c = default_separators
       \<and> (csize < int (length text)
            \<and> (\<forall>sep \<in> set (butlast default_separators). \<not> str_contains sep text)
            \<and> coverlap = csize
            \<longrightarrow> split_text c text = Inl ValueError)
       \<and> (csize < int (length text)
            \<and> (\<forall>sep \<in> set (butlast default_separators). \<not> str_contains sep text)
            \<and> csize < coverlap
            \<longrightarrow> split_text c text = Inr [])"
proof -
  let ?c = "\<lparr>chunk_size = csize, chunk_overlap = coverlap, separators = default_separators\<rparr>"
  have init: "TextChunker_init csize coverlap = Inr ?c"
    by (simp add: TextChunker_init_def)
  have zero: "split_text ?c text = Inl ValueError"
    if "csize < int (length text)"
      "\<forall>sep \<in> set (butlast default_separators). \<not> str_contains sep text" "coverlap = csize"
    using that chosen_separator_unbroken [of ?c "text"]
    by (simp add: split_text_fallback char_split_zero_stride)
  have neg: "split_text ?c text = Inr []"
    if "csize < int (length text)"
      "\<forall>sep \<in> set (butlast default_separators). \<not> str_contains sep text" "csize < coverlap"
    using that chosen_separator_unbroken [of ?c "text"]
    by (simp add: split_text_fallback char_split_negative_stride add_overlap_def)
  from init zero neg show ?thesis by auto
qed

theorem TextChunker_init_accepts_every_configuration_witness:
  "TextChunker_init 10 10
     = Inr \<lparr>chunk_size = 10, chunk_overlap = 10, separators = default_separators\<rparr>
   \<and> split_text \<lparr>chunk_size = 10, chunk_overlap = 10, separators = default_separators\<rparr>
        ''abcdefghijk'' = Inl ValueError
   \<and> TextChunker_init 5 7
     = Inr \<lparr>chunk_size = 5, chunk_overlap = 7, separators = default_separators\<rparr>
   \<and> split_text \<lparr>chunk_size = 5, chunk_overlap = 7, separators = default_separators\<rparr>
        ''abcdefghijk'' = Inr []"
  using TextChunker_init_accepts_every_configuration [of 10 10 "''abcdefghijk''"]
    TextChunker_init_accepts_every_configuration [of 5 7 "''abcdefghijk''"]
  by (simp add: TextChunker_init_def default_separators_def LF_def)

text \<open>
  C1 as stated fails: the constructor called with \<open>chunk_overlap = chunk_size = 10\<close>
  returns a chunker, and the error appears when that chunker splits an unbroken text of
  11 characters.
\<close>

theorem TextChunker_init_rejects_counterexample:
  "TextChunker_init 10 10
     = Inr \<lparr>chunk_size = 10, chunk_overlap = 10, separators = default_separators\<rparr>
   \<and> split_text \<lparr>chunk_size = 10, chunk_overlap = 10, separators = default_separators\<rparr>
        ''abcdefghijk'' = Inl ValueError"
  by (simp add: TextChunker_init_def split_text_fallback char_split_zero_stride
      chosen_separator_def default_separators_def LF_def)

text \<open>
  C8, as the code has it: when \<open>chunk_text\<close> returns, every caller-supplied metadata
  key is in every record with the caller's value; the \<open>i\<close>-th record has
  \<open>chunk_index = i\<close> and \<open>total_chunks\<close> equal to the number of records returned
  provided the metadata does not itself have the key \<open>chunk_index\<close>, respectively
  \<open>total_chunks\<close> (a caller's value replaces the computed one).
\<close>

theorem chunk_text_records:
  assumes "chunk_text c text metadata = Inr records"
  shows "\<forall>i < length records.
           (\<forall>k v. (case metadata of None \<Rightarrow> Map.empty | Some m \<Rightarrow> m) k = Some v
                    \<longrightarrow> (records ! i) k = Some v)
           \<and> ((case metadata of None \<Rightarrow> Map.empty | Some m \<Rightarrow> m) ''chunk_index'' = None
                \<longrightarrow> (records ! i) ''chunk_index'' = Some (PInt (int i)))
           \<and> ((case metadata of None \<Rightarrow> Map.empty | Some m \<Rightarrow> m) ''total_chunks'' = None
                \<longrightarrow> (records ! i) ''total_chunks'' = Some (PInt (int (length records))))"
proof -
  from assms obtain chunks where
    rs: "records = map (\<lambda>(i, chunk). chunk_data metadata (length chunks) i chunk)
                       (enumerate 0 chunks)"
    by (auto simp: chunk_text_def split: sum.splits)
  have len: "length records = length chunks" by (simp add: rs)
  have nth: "records ! i = chunk_data metadata (length chunks) i (chunks ! i)"
    if "i < length chunks" for i
    using that by (simp add: rs nth_enumerate_eq)
  show ?thesis
    by (auto simp: len nth chunk_data_def Let_def map_add_def split: option.splits)
qed

theorem chunk_text_records_witness:
  "chunk_text \<lparr>chunk_size = 5, chunk_overlap = 0, separators = default_separators\<rparr>
       [CHR ''A'', LF, LF, CHR ''B'', LF, LF, CHR ''C''] (Some [''source'' \<mapsto> PStr ''a.md''])
     = Inr [chunk_data (Some [''source'' \<mapsto> PStr ''a.md'']) 3 0 ''A'',
            chunk_data (Some [''source'' \<mapsto> PStr ''a.md'']) 3 1 ''B'',
            chunk_data (Some [''source'' \<mapsto> PStr ''a.md'']) 3 2 ''C'']
   \<and> chunk_data (Some [''source'' \<mapsto> PStr ''a.md'']) 3 2 ''C'' ''source'' = Some (PStr ''a.md'')
   \<and> chunk_data (Some [''source'' \<mapsto> PStr ''a.md'']) 3 2 ''C'' ''chunk_index'' = Some (PInt 2)
   \<and> chunk_data (Some [''source'' \<mapsto> PStr ''a.md'']) 3 2 ''C'' ''total_chunks'' = Some (PInt 3)"
proof -
  have split: "split_text \<lparr>chunk_size = 5, chunk_overlap = 0, separators = default_separators\<rparr>
        [CHR ''A'', LF, LF, CHR ''B'', LF, LF, CHR ''C''] = Inr [''A'', ''B'', ''C'']"
    by (simp add: split_text.simps build_chunks_def default_separators_def LF_def str_split_def
        flush_def strip_def isspace_def add_overlap_def)
  have h: "chunk_text \<lparr>chunk_size = 5, chunk_overlap = 0, separators = default_separators\<rparr>
       [CHR ''A'', LF, LF, CHR ''B'', LF, LF, CHR ''C''] (Some [''source'' \<mapsto> PStr ''a.md''])
     = Inr [chunk_data (Some [''source'' \<mapsto> PStr ''a.md'']) 3 0 ''A'',
            chunk_data (Some [''source'' \<mapsto> PStr ''a.md'']) 3 1 ''B'',
            chunk_data (Some [''source'' \<mapsto> PStr ''a.md'']) 3 2 ''C'']"
    by (simp add: chunk_text_def split enumerate_eq_zip upt_rec numeral_3_eq_3 numeral_2_eq_2)
  from chunk_text_records [OF h, rule_format, of 2] h show ?thesis
    by simp
qed

text \<open>
  C8 as stated fails: with the metadata \<open>{'chunk_index': 7}\<close> the only record of a
  one-chunk text has \<open>chunk_index = 7\<close>, not \<open>0\<close>.
\<close>

theorem chunk_text_index_counterexample:
  "map_sum id (map (\<lambda>d. d ''chunk_index''))
     (chunk_text \<lparr>chunk_size = 10, chunk_overlap = 0, separators = default_separators\<rparr>
        ''abc'' (Some [''chunk_index'' \<mapsto> PInt 7]))
   = Inr [Some (PInt 7)]"
  by (simp add: chunk_text_def split_text.simps chunk_data_def enumerate_eq_zip)





lemma py_slice_nonneg:
  "0 \<le> i \<Longrightarrow> i \<le> j \<Longrightarrow> py_slice xs i j = take (nat j - nat i) (drop (nat i) xs)"
  by (auto simp: py_slice_def slice_index_def Let_def min_def)











text \<open>
  C7: the claim (and the constructor's docstring, ``Maximum size of each chunk'') bounds
  every chunk before the overlap pass by \<open>chunk_size\<close>; the code does not. With
  \<open>chunk_size = 5\<close> and \<open>chunk_overlap = 0\<close> the text \<open>"abcde. fghij"\<close> is split at
  \<open>". "\<close> into two parts of length 5; each starts a buffer \<open>part + separator\<close> of length
  7 without a check, and trimming takes only the space off: both chunks have length 6.
\<close>

theorem split_text_exceeds_chunk_size:
  "split_text \<lparr>chunk_size = 5, chunk_overlap = 0, separators = default_separators\<rparr>
      ''abcde. fghij'' = Inr [''abcde.'', ''fghij.'']
   \<and> chunks_before_overlap \<lparr>chunk_size = 5, chunk_overlap = 0, separators = default_separators\<rparr>
      ''abcde. fghij'' = Inr [''abcde.'', ''fghij.'']
   \<and> map length [''abcde.'', ''fghij.''] = [6, 6]"
  by code_simp

text \<open>
  How far the chunks before the overlap pass can go beyond \<open>chunk_size\<close>: by one
  character, the punctuation mark of a sentence separator, as long as no chunk comes
  from a recursive call that has already added overlap.
\<close>

lemma length_strip_le: "length (strip s) \<le> length s"
proof -
  have "length (strip s) \<le> length (dropWhile isspace s)"
    unfolding strip_def using length_dropWhile_le [of isspace "rev (dropWhile isspace s)"] by simp
  also have "\<dots> \<le> length s" by (rule length_dropWhile_le)
  finally show ?thesis .
qed

lemma length_strip_snoc_space:
  assumes "isspace w"
  shows "length (strip (xs @ [w])) \<le> length xs"
proof (cases "\<forall>x \<in> set xs. isspace x")
  case True
  with assms have "dropWhile isspace (xs @ [w]) = []" by simp
  then show ?thesis by (simp add: strip_def)
next
  case False
  then have "dropWhile isspace (xs @ [w]) = dropWhile isspace xs @ [w]"
    by auto
  with assms have "strip (xs @ [w]) = strip xs"
    by (simp add: strip_def)
  then show ?thesis by (simp add: length_strip_le)
qed

lemma length_strip_append_separator:
  assumes "sep \<noteq> []" and "isspace (last sep)"
  shows "length (strip (part @ sep)) + 1 \<le> length part + length sep"
proof -
  from assms(1) have "part @ sep = (part @ butlast sep) @ [last sep]" by simp
  then have "length (strip (part @ sep)) \<le> length (part @ butlast sep)"
    using length_strip_snoc_space [OF assms(2), of "part @ butlast sep"] by simp
  with assms(1) show ?thesis by (cases sep rule: rev_cases) auto
qed

lemma default_separator_shape:
  "sep \<in> set default_separators \<Longrightarrow> sep \<noteq> [] \<Longrightarrow> length sep \<le> 2 \<and> isspace (last sep)"
  by (auto simp: default_separators_def isspace_def LF_def)

lemma py_slice_length:
  "0 \<le> i \<Longrightarrow> 0 \<le> n \<Longrightarrow> int (length (py_slice xs i (i + n))) \<le> n"
  by (auto simp: py_slice_def slice_index_def Let_def min_def)

lemma py_range_nonneg:
  "0 \<le> start \<Longrightarrow> 0 < step \<Longrightarrow>
     \<exists>starts. py_range start stop step = Inr starts \<and> (\<forall>i \<in> set starts. 0 \<le> i)"
  by (auto simp: py_range_def)

lemma char_split_bounded:
  assumes "chunk_overlap c < chunk_size c" and "0 \<le> chunk_size c"
  shows "\<exists>chunks. char_split c text = Inr chunks
           \<and> (\<forall>ch \<in> set chunks. int (length ch) \<le> chunk_size c)"
proof -
  from assms(1) have "0 < chunk_size c - chunk_overlap c" by simp
  from py_range_nonneg [OF _ this, of 0 "int (length text)"] obtain starts where
    starts: "py_range 0 (int (length text)) (chunk_size c - chunk_overlap c) = Inr starts"
      "\<forall>i \<in> set starts. 0 \<le> i" by auto
  show ?thesis
    using starts assms(2) by (auto simp: char_split_def py_slice_length)
qed

lemma flush_bounded:
  "int (length (strip cur)) \<le> B \<Longrightarrow> \<forall>ch \<in> set (flush cur). int (length ch) \<le> B"
  by (simp add: flush_def)

lemma pack_parts_bounded:
  assumes sep: "sep \<noteq> []" "length sep \<le> 2" "isspace (last sep)"
    and B: "chunk_size c + 1 \<le> B"
    and rec: "\<forall>p \<in> set parts. chunk_size c < int (length p) \<longrightarrow>
               (\<exists>sub. rec p = Inr sub \<and> (\<forall>ch \<in> set sub. int (length ch) \<le> B))"
    and cur: "int (length (strip cur)) \<le> B"
  shows "\<exists>chunks. pack_parts rec c sep parts cur = Inr chunks
           \<and> (\<forall>ch \<in> set chunks. int (length ch) \<le> B)"
  using rec cur
proof (induction parts arbitrary: cur)
  case Nil
  then show ?case by (simp add: flush_bounded)
next
  case (Cons part parts)
  from Cons.prems(1) have rec': "\<forall>p \<in> set parts. chunk_size c < int (length p) \<longrightarrow>
               (\<exists>sub. rec p = Inr sub \<and> (\<forall>ch \<in> set sub. int (length ch) \<le> B))" by simp
  note fl = flush_bounded [OF Cons.prems(2)]
  show ?case
  proof (cases "int (length cur) + int (length part) + int (length sep) \<le> chunk_size c")
    case True
    have "int (length (strip (cur @ part @ sep))) \<le> B"
      using True B length_strip_le [of "cur @ part @ sep"] by simp
    from Cons.IH [OF rec' this] True show ?thesis by simp
  next
    case False
    show ?thesis
    proof (cases "chunk_size c < int (length part)")
      case True
      with Cons.prems(1) obtain sub where
        sub: "rec part = Inr sub" "\<forall>ch \<in> set sub. int (length ch) \<le> B" by auto
      have "int (length (strip [])) \<le> B"
        using Cons.prems(2) length_strip_le [of cur] by (simp add: strip_def)
      from Cons.IH [OF rec' this] obtain rest where
        "pack_parts rec c sep parts [] = Inr rest" "\<forall>ch \<in> set rest. int (length ch) \<le> B"
        by blast
      with False True sub fl show ?thesis by auto
    next
      case small: False
      have "int (length (strip (part @ sep))) \<le> B"
        using length_strip_append_separator [OF sep(1,3), of part] sep(2) small B by simp
      from Cons.IH [OF rec' this] obtain rest where
        "pack_parts rec c sep parts (part @ sep) = Inr rest"
        "\<forall>ch \<in> set rest. int (length ch) \<le> B" by blast
      with False small fl show ?thesis by auto
    qed
  qed
qed

lemma build_chunks_bounded:
  assumes seps: "separators c = default_separators"
    and valid: "chunk_overlap c < chunk_size c" "0 \<le> chunk_size c"
    and B: "chunk_size c + 1 \<le> B"
    and rec: "\<And>sep p. chosen_separator c text = Some sep \<Longrightarrow> sep \<noteq> [] \<Longrightarrow>
                p \<in> set (str_split_from sep [] text) \<Longrightarrow> chunk_size c < int (length p) \<Longrightarrow>
                \<exists>sub. rec p = Inr sub \<and> (\<forall>ch \<in> set sub. int (length ch) \<le> B)"
  shows "\<exists>chunks. build_chunks rec c text = Inr chunks
           \<and> (\<forall>ch \<in> set chunks. int (length ch) \<le> B)"
proof (cases "chosen_separator c text")
  case None
  then show ?thesis by (simp add: build_chunks_def chosen_separator_def)
next
  case (Some sep)
  show ?thesis
  proof (cases "sep = []")
    case True
    from char_split_bounded [OF valid, of "text"] obtain chunks where
      "char_split c text = Inr chunks" "\<forall>ch \<in> set chunks. int (length ch) \<le> chunk_size c"
      by blast
    with True Some B show ?thesis
      by (fastforce simp: build_chunks_def chosen_separator_def)
  next
    case False
    from chosen_separator_props(1) [OF Some] seps False
    have shape: "length sep \<le> 2" "isspace (last sep)"
      using default_separator_shape [of sep] by auto
    have "int (length (strip [])) \<le> B"
      using valid(2) B by (simp add: strip_def)
    from pack_parts_bounded [OF False shape B _ this, of "str_split_from sep [] text" rec]
      rec [OF Some False]
    obtain chunks where
      "pack_parts rec c sep (str_split_from sep [] text) [] = Inr chunks"
      "\<forall>ch \<in> set chunks. int (length ch) \<le> B" by blast
    with False Some show ?thesis
      by (simp add: build_chunks_def chosen_separator_def str_split_def)
  qed
qed

lemma split_text_bounded_without_overlap:
  assumes seps: "separators c = default_separators"
    and valid: "chunk_overlap c = 0" "0 < chunk_size c"
  shows "\<exists>chunks. split_text c text = Inr chunks
           \<and> (\<forall>ch \<in> set chunks. int (length ch) \<le> chunk_size c + 1)"
proof (induction "text" rule: length_induct)
  case (1 xs)
  show ?case
  proof (cases "int (length xs) \<le> chunk_size c")
    case True
    then show ?thesis by (subst split_text.simps) simp
  next
    case False
    have "\<exists>sub. split_text c p = Inr sub
            \<and> (\<forall>ch \<in> set sub. int (length ch) \<le> chunk_size c + 1)"
      if "chosen_separator c xs = Some sep" "sep \<noteq> []" "p \<in> set (str_split_from sep [] xs)"
      for sep p
    proof -
      from chosen_separator_props(2) [OF that(1,2)] have "str_contains sep xs" .
      from str_split_from_length_less [OF that(2) this that(3)] have "length p < length xs"
        by simp
      with 1 show ?thesis by blast
    qed
    with build_chunks_bounded [OF seps, of "chunk_size c + 1" xs "split_text c"] valid
    obtain chunks where
      "build_chunks (split_text c) c xs = Inr chunks"
      "\<forall>ch \<in> set chunks. int (length ch) \<le> chunk_size c + 1" by auto
    with False valid(1) show ?thesis
      by (subst split_text.simps) (simp add: add_overlap_def)
  qed
qed

lemma chunks_before_overlap_bounded:
  assumes init: "TextChunker_init csize coverlap = Inr c"
    and valid: "0 < csize" "0 \<le> coverlap" "coverlap < csize"
    and restr: "coverlap = 0 \<or> no_oversize_part c text"
  shows "\<exists>chunks. chunks_before_overlap c text = Inr chunks
           \<and> (\<forall>ch \<in> set chunks. int (length ch) \<le> csize + 1)"
proof (cases "int (length text) \<le> chunk_size c")
  case True
  with init show ?thesis
    by (auto simp: chunks_before_overlap_def TextChunker_init_def)
next
  case False
  from init have c: "chunk_size c = csize" "chunk_overlap c = coverlap"
    "separators c = default_separators"
    by (auto simp: TextChunker_init_def)
  have "\<exists>sub. split_text c p = Inr sub
          \<and> (\<forall>ch \<in> set sub. int (length ch) \<le> chunk_size c + 1)"
    if "chosen_separator c text = Some sep" "sep \<noteq> []"
      "p \<in> set (str_split_from sep [] text)" "chunk_size c < int (length p)" for sep p
    using restr
  proof
    assume "coverlap = 0"
    with split_text_bounded_without_overlap [OF c(3), of p] c valid show ?thesis by simp
  next
    assume "no_oversize_part c text"
    with that show ?thesis
      by (auto simp: no_oversize_part_def list_all_iff)
  qed
  with build_chunks_bounded [OF c(3), of "chunk_size c + 1" "text" "split_text c"] c valid
  obtain chunks where
    "build_chunks (split_text c) c text = Inr chunks"
    "\<forall>ch \<in> set chunks. int (length ch) \<le> chunk_size c + 1" by auto
  with False c show ?thesis
    by (simp add: chunks_before_overlap_def)
qed


text \<open>
  C9, as the code has it: for an unbroken text of 25 characters with
  \<open>chunk_size = 10\<close> and \<open>chunk_overlap = 2\<close> the fallback takes the slices
  \<open>text[i : i + 10]\<close> at \<open>i = 0, 8, 16, 24\<close>, of lengths 10, 10, 9 and 1, which cover the
  text; the overlap pass then puts the last two characters of the previous slice and a
  space in front of every slice but the first, so that the returned chunks have lengths
  10, 13, 12 and 4.
\<close>

theorem fixed_stride_fallback:
  assumes len: "length text = 25"
    and nosep: "\<forall>sep \<in> set (butlast default_separators). \<not> str_contains sep text"
  shows "chunks_before_overlap
           \<lparr>chunk_size = 10, chunk_overlap = 2, separators = default_separators\<rparr> text
         = Inr [take 10 text, take 10 (drop 8 text), drop 16 text, drop 24 text]
       \<and> split_text \<lparr>chunk_size = 10, chunk_overlap = 2, separators = default_separators\<rparr> text
         = Inr [take 10 text,
                take 2 (drop 8 text) @ '' '' @ take 10 (drop 8 text),
                take 2 (drop 16 text) @ '' '' @ drop 16 text,
                take 2 (drop 23 text) @ '' '' @ drop 24 text]"
proof -
  let ?c = "\<lparr>chunk_size = 10, chunk_overlap = 2, separators = default_separators\<rparr>"
  have chosen: "chosen_separator ?c text = Some []"
    using nosep by (simp add: chosen_separator_def default_separators_def)
  have ne: "text \<noteq> []"
    using len by auto
  have range: "py_range 0 25 8 = Inr [0, 8, 16, 24]"
    by (simp add: py_range_def upt_rec)
  have slices: "char_split ?c text
      = Inr [take 10 text, take 10 (drop 8 text), drop 16 text, drop 24 text]"
    using len ne by (simp add: char_split_def range py_slice_nonneg)
  have before: "chunks_before_overlap ?c text
         = Inr [take 10 text, take 10 (drop 8 text), drop 16 text, drop 24 text]"
    using len chosen slices
    by (simp add: chunks_before_overlap_def build_chunks_def chosen_separator_def)
  have "add_overlap ?c [take 10 text, take 10 (drop 8 text), drop 16 text, drop 24 text]
      = [take 10 text,
         take 2 (drop 8 text) @ '' '' @ take 10 (drop 8 text),
         take 2 (drop 16 text) @ '' '' @ drop 16 text,
         take 2 (drop 23 text) @ '' '' @ drop 24 text]"
    using len
    by (simp add: add_overlap_def upt_rec overlap_text_def py_slice_from_def slice_index_def
        min_def take_drop)
  then have "split_text ?c text
         = Inr [take 10 text,
                take 2 (drop 8 text) @ '' '' @ take 10 (drop 8 text),
                take 2 (drop 16 text) @ '' '' @ drop 16 text,
                take 2 (drop 23 text) @ '' '' @ drop 24 text]"
    using len chosen slices by (simp add: split_text_fallback)
  with before show ?thesis by simp
qed

theorem fixed_stride_fallback_witness:
  "length ''0123456789012345678901234'' = 25
   \<and> chunks_before_overlap
        \<lparr>chunk_size = 10, chunk_overlap = 2, separators = default_separators\<rparr>
        ''0123456789012345678901234''
     = Inr [''0123456789'', ''8901234567'', ''678901234'', ''4'']
   \<and> split_text \<lparr>chunk_size = 10, chunk_overlap = 2, separators = default_separators\<rparr>
        ''0123456789012345678901234''
     = Inr [''0123456789'', ''89 8901234567'', ''67 678901234'', ''34 4'']"
  using fixed_stride_fallback [of "''0123456789012345678901234''"]
  by (simp add: default_separators_def LF_def)

text \<open>
  C9 as stated fails: the chunks returned for the 25 letters \<open>a\<close> to \<open>y\<close> are not the
  stride slices and not of length 10; they have lengths 10, 13, 12 and 4.
\<close>

theorem fixed_stride_slices_counterexample:
  "split_text \<lparr>chunk_size = 10, chunk_overlap = 2, separators = default_separators\<rparr>
     ''abcdefghijklmnopqrstuvwxy''
   = Inr [''abcdefghij'', ''ij ijklmnopqr'', ''qr qrstuvwxy'', ''xy y'']
   \<and> map length [''abcdefghij'', ''ij ijklmnopqr'', ''qr qrstuvwxy'', ''xy y'']
     = [10, 13, 12, 4]"
  by code_simp

end
